theory Spec2Isabelle
  imports Complex_Main "HOL-Library.AList"
begin

section \<open>JavaScript numbers and values\<close>

text \<open>
  A JavaScript number is modelled as an exact real or the value NaN. Arithmetic follows
  the language: every operation with a NaN operand gives NaN (with the one exception of
  \<open>Math.pow(x, 0)\<close>, which is 1 for every \<open>x\<close>). The rounding of IEEE doubles is
  modelled where \<open>parseInt\<close> turns a run of digits into a number and nowhere else;
  the infinities are not modelled.
\<close>

datatype jsnum = Num real | NaN

fun js_mul :: "jsnum \<Rightarrow> jsnum \<Rightarrow> jsnum" where
  "js_mul (Num a) (Num b) = Num (a * b)"
| "js_mul _ _ = NaN"

fun js_add :: "jsnum \<Rightarrow> jsnum \<Rightarrow> jsnum" where
  "js_add (Num a) (Num b) = Num (a + b)"
| "js_add _ _ = NaN"

fun Math_min :: "jsnum \<Rightarrow> jsnum \<Rightarrow> jsnum" where
  "Math_min (Num a) (Num b) = Num (min a b)"
| "Math_min _ _ = NaN"

text \<open>\<open>Math.pow\<close> with a non-negative integer exponent.\<close>

fun Math_pow :: "jsnum \<Rightarrow> nat \<Rightarrow> jsnum" where
  "Math_pow b 0 = Num 1"
| "Math_pow (Num b) n = Num (b ^ n)"
| "Math_pow NaN n = NaN"

text \<open>\<open>x >= y\<close> and \<open>x === 0\<close>: a comparison with NaN is false.\<close>

fun js_ge :: "jsnum \<Rightarrow> jsnum \<Rightarrow> bool" where
  "js_ge (Num a) (Num b) = (a \<ge> b)"
| "js_ge _ _ = False"

fun js_is_zero :: "jsnum \<Rightarrow> bool" where
  "js_is_zero (Num a) = (a = 0)"
| "js_is_zero NaN = False"

text \<open>
  The values of the language that the configuration and the wire hold. An object is a
  plain object, the list of its properties; an array is given by the string it prints
  as (its elements joined by commas), which is all that a conversion of an array to a
  string or a number looks at. Reading a property that an object does not have gives
  \<open>undefined\<close>.
\<close>

datatype jsval =
  Undefined | Null | Bool bool | Number jsnum | Str string
  | Object "(string \<times> jsval) list" | Array string

fun js_get :: "jsval \<Rightarrow> string \<Rightarrow> jsval" where
  "js_get (Object kvs) k = (case map_of kvs k of Some v \<Rightarrow> v | None \<Rightarrow> Undefined)"
| "js_get _ k = Undefined"

section \<open>config.js\<close>

definition APP_CONFIG :: jsval where
  "APP_CONFIG = Object
     [(''NAME'', Str ''Lampara Virtual LDR''),
      (''VERSION'', Str ''2.0''),
      (''TIMEOUTS'', Object
         [(''API_REQUEST'', Number (Num 5000)),
          (''WS_CONNECTION'', Number (Num 10000)),
          (''HEALTH_CHECK'', Number (Num 30000)),
          (''STATS_UPDATE'', Number (Num 10000)),
          (''RECONNECT_DELAY'', Number (Num 3000))]),
      (''RECONNECTION'', Object
         [(''MAX_ATTEMPTS'', Number (Num 10)),
          (''BACKOFF_FACTOR'', Number (Num 1.5)),
          (''MAX_DELAY'', Number (Num 30000))]),
      (''DATA'', Object
         [(''MAX_HISTORY_DISPLAY'', Number (Num 50)),
          (''CACHE_DURATION'', Number (Num 300000))]),
      (''EFFECTS'', Object
         [(''TRANSITION_DURATION'', Number (Num 1500)),
          (''ANIMATION_DURATION'', Number (Num 500))])]"

section \<open>config.js: extractLDRValue\<close>

text \<open>
  Strings are lists of 8-bit characters; the accented letters in the string literals of
  the source are written without the accent. \<open>str_includes\<close> is \<open>String.prototype.includes\<close>;
  \<open>regex_LDR\<close> is \<open>rawData.match(/LDR=(\d+)/)\<close> reduced to its capture group: the
  search tries the start positions from left to right, and \<open>\d+\<close> is greedy.
\<close>

fun startsWith :: "string \<Rightarrow> string \<Rightarrow> bool" where
  "startsWith s [] = True"
| "startsWith [] (p # ps) = False"
| "startsWith (c # cs) (p # ps) = (c = p \<and> startsWith cs ps)"


definition is_digit :: "char \<Rightarrow> bool" where
  "is_digit c = (c \<in> set ''0123456789'')"



text \<open>
  \<open>parseInt\<close> with no radix argument, after ECMAScript: leading white space is
  dropped, a sign is read, a \<open>0x\<close> prefix selects radix 16, and the longest prefix of
  digits of the radix is the value, rounded to a double; no digit at all gives NaN. Of the white space
  characters of the language, \<open>is_ws\<close> has those with a code below 256.
\<close>

definition is_ws :: "char \<Rightarrow> bool" where
  "is_ws c = ((of_char c :: nat) \<in> {9, 10, 11, 12, 13, 32, 160})"

definition char_digit :: "char \<Rightarrow> nat option" where
  "char_digit c =
     (if c \<in> set ''0123456789'' then Some (of_char c - 48)
      else if c \<in> set ''abcdefghijklmnopqrstuvwxyz'' then Some (of_char c - 87)
      else if c \<in> set ''ABCDEFGHIJKLMNOPQRSTUVWXYZ'' then Some (of_char c - 55)
      else None)"

definition in_radix :: "nat \<Rightarrow> char \<Rightarrow> bool" where
  "in_radix R c = (case char_digit c of Some v \<Rightarrow> v < R | None \<Rightarrow> False)"

definition digits_to_nat :: "nat \<Rightarrow> string \<Rightarrow> nat" where
  "digits_to_nat R ds =
     foldl (\<lambda>acc c. case char_digit c of Some v \<Rightarrow> acc * R + v | None \<Rightarrow> acc) 0 ds"







text \<open>
  The conversion of a string to a number, after ECMAScript: white space is trimmed at
  both ends; the empty string is 0; a literal with prefix \<open>0x\<close>, \<open>0o\<close> or \<open>0b\<close> is read in
  its radix; otherwise an optional sign is followed by a decimal literal with optional
  fraction and exponent; anything else is NaN. The values are exact, and the literal
  \<open>Infinity\<close>, whose value has no counterpart here, is not recognised.
\<close>

definition trim_ws :: "string \<Rightarrow> string" where
  "trim_ws s = rev (dropWhile is_ws (rev (dropWhile is_ws s)))"

definition radix_literal :: "nat \<Rightarrow> string \<Rightarrow> jsnum" where
  "radix_literal R ds =
     (if ds \<noteq> [] \<and> list_all (in_radix R) ds then Num (real (digits_to_nat R ds)) else NaN)"

definition exponent_part :: "string \<Rightarrow> int option" where
  "exponent_part t =
     (if t = [] then Some 0
      else if hd t = CHR ''e'' \<or> hd t = CHR ''E'' then
        (let u = tl t;
             ds = (if u \<noteq> [] \<and> (hd u = CHR ''+'' \<or> hd u = CHR ''-'') then tl u else u)
         in if ds \<noteq> [] \<and> list_all is_digit ds
            then Some (if u \<noteq> [] \<and> hd u = CHR ''-'' then - int (digits_to_nat 10 ds)
                       else int (digits_to_nat 10 ds))
            else None)
      else None)"

definition unsigned_decimal_literal :: "string \<Rightarrow> jsnum" where
  "unsigned_decimal_literal t =
     (let ip = takeWhile is_digit t;
          r1 = dropWhile is_digit t;
          dot = (r1 \<noteq> [] \<and> hd r1 = CHR ''.'');
          fp = (if dot then takeWhile is_digit (tl r1) else []);
          r2 = (if dot then dropWhile is_digit (tl r1) else r1)
      in if ip = [] \<and> fp = [] then NaN
         else case exponent_part r2 of
                None \<Rightarrow> NaN
              | Some e \<Rightarrow>
                  Num ((real (digits_to_nat 10 ip) + real (digits_to_nat 10 fp) / 10 ^ length fp)
                       * (if e \<ge> 0 then 10 ^ nat e else 1 / 10 ^ nat (- e))))"

fun js_neg :: "jsnum \<Rightarrow> jsnum" where
  "js_neg (Num a) = Num (- a)"
| "js_neg NaN = NaN"

definition StringToNumber :: "string \<Rightarrow> jsnum" where
  "StringToNumber s =
     (let t = trim_ws s
      in if t = [] then Num 0
         else if take 2 t = ''0x'' \<or> take 2 t = ''0X'' then radix_literal 16 (drop 2 t)
         else if take 2 t = ''0o'' \<or> take 2 t = ''0O'' then radix_literal 8 (drop 2 t)
         else if take 2 t = ''0b'' \<or> take 2 t = ''0B'' then radix_literal 2 (drop 2 t)
         else if hd t = CHR ''-'' then js_neg (unsigned_decimal_literal (tl t))
         else if hd t = CHR ''+'' then unsigned_decimal_literal (tl t)
         else unsigned_decimal_literal t)"

text \<open>
  The conversion of a value to a number, as the arithmetic operators apply it to an
  operand.
\<close>

fun ToNumber :: "jsval \<Rightarrow> jsnum" where
  "ToNumber Undefined = NaN"
| "ToNumber Null = Num 0"
| "ToNumber (Bool b) = Num (if b then 1 else 0)"
| "ToNumber (Number n) = n"
| "ToNumber (Str s) = StringToNumber s"
| "ToNumber (Object kvs) = NaN"
| "ToNumber (Array printed) = StringToNumber printed"

section \<open>websocket-service.js: backoff delay and latency smoothing\<close>

text \<open>
  The delay expression of \<open>attemptReconnect\<close>, for the value \<open>attempts\<close> that
  \<open>reconnectAttempts\<close> has after its increment:
  \<^verbatim>\<open>Math.min(APP_CONFIG.RECONNECTION.RECONNECT_DELAY
             * Math.pow(APP_CONFIG.RECONNECTION.BACKOFF_FACTOR, this.reconnectAttempts - 1),
           APP_CONFIG.RECONNECTION.MAX_DELAY)\<close>
\<close>

definition reconnect_delay :: "jsval \<Rightarrow> nat \<Rightarrow> jsnum" where
  "reconnect_delay cfg attempts =
     Math_min
       (js_mul (ToNumber (js_get (js_get cfg ''RECONNECTION'') ''RECONNECT_DELAY''))
               (Math_pow (ToNumber (js_get (js_get cfg ''RECONNECTION'') ''BACKOFF_FACTOR''))
                         (attempts - 1)))
       (ToNumber (js_get (js_get cfg ''RECONNECTION'') ''MAX_DELAY''))"

text \<open>\<open>updateLatency\<close>, on the field \<open>metrics.avgLatency\<close>.\<close>

definition updateLatency :: "jsnum \<Rightarrow> jsnum \<Rightarrow> jsnum" where
  "updateLatency avgLatency latency =
     (if js_is_zero avgLatency then latency
      else js_add (js_mul avgLatency (Num 0.8)) (js_mul latency (Num 0.2)))"

text \<open>The average after a sequence of samples, from the constructor's value 0.\<close>

definition fold_latency :: "jsnum list \<Rightarrow> jsnum" where
  "fold_latency samples = foldl updateLatency (Num 0) samples"

section \<open>websocket-service.js: the connection life cycle\<close>

text \<open>
  The service object is a record of its fields (the four metrics are flattened into it).
  Three more fields stand for the environment: \<open>effects\<close> lists, oldest first, what
  the service did to the outside (listener notifications, sockets, timers); \<open>timers\<close>
  holds the handles of the timers and intervals that are armed; \<open>fresh\<close> is the next
  handle the browser hands out. A handle stored in a field is a positive number, so
  the truthiness tests \<open>if (this.pingInterval)\<close> and \<open>if (this.reconnectTimeout)\<close>
  are tests for \<open>Some\<close>. Listeners are opaque: notifying them is recorded as an
  effect, and a listener does not call back into the service.
\<close>

record close_event =
  code :: nat
  reason :: string
  wasClean :: bool

datatype error_data =
    max_reconnects_reached nat
  | websocket_error
  | exception string

datatype feed_event =
    onConnected int
  | onDisconnected nat string bool
  | onError error_data
  | onReconnecting nat "jsnum option" "jsnum option"

datatype timer_callback = reconnect_callback | connection_timeout | ping_callback | wait_callback

datatype effect =
    Emit feed_event
  | NewWebSocket nat
  | WsClose nat nat string
  | SetTimeout nat timer_callback jsnum
  | ClearTimeout nat
  | SetInterval nat timer_callback jsnum
  | ClearInterval nat

record ws_service =
  ws :: "nat option"
  isConnected :: bool
  reconnectAttempts :: nat
  maxReconnectAttempts :: jsnum
  reconnectDelay :: jsnum
  connectionStartTime :: "int option"
  pingInterval :: "nat option"
  reconnectTimeout :: "nat option"
  connectTimeout :: "nat option"
  messagesReceived :: nat
  lastMessageTime :: "int option"
  totalReconnects :: nat
  avgLatency :: jsnum
  effects :: "effect list"
  timers :: "nat list"
  fresh :: nat

text \<open>The constructor, in an environment whose next handle is \<open>h\<close>.\<close>

definition new_WebSocketService :: "nat \<Rightarrow> ws_service" where
  "new_WebSocketService h =
     \<lparr> ws = None, isConnected = False, reconnectAttempts = 0,
       maxReconnectAttempts = ToNumber (js_get (js_get APP_CONFIG ''RECONNECTION'') ''MAX_ATTEMPTS''),
       reconnectDelay = ToNumber (js_get (js_get APP_CONFIG ''RECONNECTION'') ''BACKOFF_FACTOR''),
       connectionStartTime = None, pingInterval = None, reconnectTimeout = None,
       connectTimeout = None, messagesReceived = 0, lastMessageTime = None, totalReconnects = 0,
       avgLatency = Num 0, effects = [], timers = [], fresh = h \<rparr>"

definition triggerCallbacks :: "feed_event \<Rightarrow> ws_service \<Rightarrow> ws_service" where
  "triggerCallbacks ev s = s\<lparr>effects := effects s @ [Emit ev]\<rparr>"

definition startPingInterval :: "ws_service \<Rightarrow> ws_service" where
  "startPingInterval s =
     s\<lparr>pingInterval := Some (fresh s),
       timers := timers s @ [fresh s],
       effects := effects s @
         [SetInterval (fresh s) ping_callback
            (ToNumber (js_get (js_get APP_CONFIG ''TIMEOUTS'') ''WS_PING_INTERVAL''))],
       fresh := Suc (fresh s)\<rparr>"

definition stopPingInterval :: "ws_service \<Rightarrow> ws_service" where
  "stopPingInterval s =
     (case pingInterval s of
        None \<Rightarrow> s
      | Some h \<Rightarrow> s\<lparr>pingInterval := None,
                    timers := removeAll h (timers s),
                    effects := effects s @ [ClearInterval h]\<rparr>)"

definition handleOpen :: "int \<Rightarrow> ws_service \<Rightarrow> ws_service" where
  "handleOpen now s =
     triggerCallbacks (onConnected now)
       (startPingInterval
          (s\<lparr>isConnected := True, reconnectAttempts := 0, connectionStartTime := Some now\<rparr>))"

definition attemptReconnect :: "ws_service \<Rightarrow> ws_service" where
  "attemptReconnect s =
     (if js_ge (Num (real (reconnectAttempts s))) (maxReconnectAttempts s)
      then triggerCallbacks (onError (max_reconnects_reached (reconnectAttempts s))) s
      else
        let s1 = s\<lparr>reconnectAttempts := reconnectAttempts s + 1,
                   totalReconnects := totalReconnects s + 1\<rparr>;
            delay = reconnect_delay APP_CONFIG (reconnectAttempts s1);
            s2 = triggerCallbacks
                   (onReconnecting (reconnectAttempts s1) (Some (maxReconnectAttempts s1))
                      (Some delay)) s1
        in s2\<lparr>reconnectTimeout := Some (fresh s2),
               timers := timers s2 @ [fresh s2],
               effects := effects s2 @ [SetTimeout (fresh s2) reconnect_callback delay],
               fresh := Suc (fresh s2)\<rparr>)"

definition handleClose :: "close_event \<Rightarrow> ws_service \<Rightarrow> ws_service" where
  "handleClose event s =
     (let s1 = stopPingInterval (s\<lparr>isConnected := False\<rparr>);
          s2 = triggerCallbacks (onDisconnected (code event) (reason event) (wasClean event)) s1
      in if \<not> wasClean event \<and> code event \<noteq> 1000 then attemptReconnect s2 else s2)"

definition handleError :: "ws_service \<Rightarrow> ws_service" where
  "handleError s = triggerCallbacks (onError websocket_error) s"

text \<open>
  \<open>connect\<close> up to the point where it returns: \<open>true\<close> at once, \<open>false\<close> after the
  \<open>WebSocket\<close> constructor threw (\<open>ctor_throws\<close>, decided by the browser), or a promise
  that waits for the socket's \<open>open\<close> or \<open>error\<close> event or for the connection timeout.
  The field \<open>connectTimeout\<close> stands for the variable \<open>timeout\<close> of that promise, and
  \<open>promise_settles\<close> for what its \<open>onOpen\<close> and \<open>onError\<close> handlers do to it.
\<close>

datatype connect_result = resolved_true | returned_false | promise_pending

definition connect :: "bool \<Rightarrow> ws_service \<Rightarrow> connect_result \<times> ws_service" where
  "connect ctor_throws s =
     (if isConnected s then (resolved_true, s)
      else
        let s1 = triggerCallbacks (onReconnecting (reconnectAttempts s + 1) None None) s
        in if ctor_throws
           then (returned_false, triggerCallbacks (onError (exception ''WebSocket'')) s1)
           else (promise_pending,
                 s1\<lparr>ws := Some (fresh s1),
                    connectTimeout := Some (Suc (fresh s1)),
                    timers := timers s1 @ [Suc (fresh s1)],
                    effects := effects s1 @
                      [NewWebSocket (fresh s1),
                       SetTimeout (Suc (fresh s1)) connection_timeout
                         (ToNumber (js_get (js_get APP_CONFIG ''TIMEOUTS'') ''WS_CONNECTION''))],
                    fresh := Suc (Suc (fresh s1))\<rparr>))"

definition promise_settles :: "ws_service \<Rightarrow> ws_service" where
  "promise_settles s =
     (case connectTimeout s of
        None \<Rightarrow> s
      | Some h \<Rightarrow> s\<lparr>connectTimeout := None,
                    timers := removeAll h (timers s),
                    effects := effects s @ [ClearTimeout h]\<rparr>)"

text \<open>
  \<open>WebSocket.close(code, reason)\<close> throws unless the code is 1000 or in 3000..4999 and
  the reason is at most 123 bytes long.
\<close>

definition close_args_ok :: "nat \<Rightarrow> string \<Rightarrow> bool" where
  "close_args_ok c r = ((c = 1000 \<or> (3000 \<le> c \<and> c \<le> 4999)) \<and> length r \<le> 123)"

text \<open>
  \<open>disconnect\<close>; the first component is the name of the exception that \<open>ws.close\<close>
  threw, if it did. The source's default arguments are 1000 and a fixed reason.
\<close>

definition disconnect :: "nat \<Rightarrow> string \<Rightarrow> ws_service \<Rightarrow> string option \<times> ws_service" where
  "disconnect c r s =
     (case ws s of
        None \<Rightarrow> (None, s)
      | Some sock \<Rightarrow>
          if isConnected s then
            let s1 = stopPingInterval s;
                s2 = (case reconnectTimeout s1 of
                        None \<Rightarrow> s1
                      | Some h \<Rightarrow> s1\<lparr>reconnectTimeout := None,
                                     timers := removeAll h (timers s1),
                                     effects := effects s1 @ [ClearTimeout h]\<rparr>)
            in if close_args_ok c r
               then (None, s2\<lparr>effects := effects s2 @ [WsClose sock c r]\<rparr>)
               else (Some ''DOMException'', s2)
          else (None, s))"

text \<open>
  \<open>forceReconnect\<close>. When the client is connected the function arms a timer of one
  second after \<open>disconnect\<close> and goes on when it fires; \<open>settled\<close> is the close event
  that the socket delivers during that wait, if it delivers one.
\<close>

definition start_wait :: "ws_service \<Rightarrow> ws_service" where
  "start_wait s =
     s\<lparr>timers := timers s @ [fresh s],
       effects := effects s @ [SetTimeout (fresh s) wait_callback (Num 1000)],
       fresh := Suc (fresh s)\<rparr>"

definition forceReconnect ::
  "close_event option \<Rightarrow> bool \<Rightarrow> ws_service \<Rightarrow> connect_result \<times> ws_service" where
  "forceReconnect settled ctor_throws s =
     (let s1 = (if isConnected s
                then (let s0 = snd (disconnect 1000 ''Reconexion manual'' s);
                          s' = start_wait s0;
                          s'' = (case settled of None \<Rightarrow> s' | Some ev \<Rightarrow> handleClose ev s')
                      in s''\<lparr>timers := removeAll (fresh s0) (timers s'')\<rparr>)
                else s)
      in connect ctor_throws (s1\<lparr>reconnectAttempts := 0\<rparr>))"

text \<open>
  The callback of the reconnect timer with handle \<open>h\<close>: it awaits \<open>connect()\<close> and
  swallows a rejection. A timer that was cleared does not fire.
\<close>

definition reconnect_timer_fires :: "bool \<Rightarrow> nat \<Rightarrow> ws_service \<Rightarrow> ws_service" where
  "reconnect_timer_fires ctor_throws h s =
     (if h \<in> set (timers s)
      then snd (connect ctor_throws (s\<lparr>timers := removeAll h (timers s)\<rparr>))
      else s)"

text \<open>
  A run of consecutive closures with no successful open in between: each close event is
  handled, then the reconnect timer that is armed (if one is) fires and calls
  \<open>connect()\<close>, whose socket is the one that closes next.
\<close>

definition closure_round :: "close_event \<Rightarrow> ws_service \<Rightarrow> ws_service" where
  "closure_round ev s =
     (let s1 = handleClose ev s
      in case reconnectTimeout s1 of
           None \<Rightarrow> s1
         | Some h \<Rightarrow> reconnect_timer_fires False h s1)"

fun closures :: "close_event list \<Rightarrow> ws_service \<Rightarrow> ws_service" where
  "closures [] s = s"
| "closures (ev # evs) s = closures evs (closure_round ev s)"

text \<open>Close events handled one after the other, with no timer firing in between.\<close>

fun handleCloses :: "close_event list \<Rightarrow> ws_service \<Rightarrow> ws_service" where
  "handleCloses [] s = s"
| "handleCloses (ev # evs) s = handleCloses evs (handleClose ev s)"

definition abnormal :: "close_event \<Rightarrow> bool" where
  "abnormal ev = (\<not> wasClean ev \<and> code ev \<noteq> 1000)"

text \<open>The effects that schedule or open a connection.\<close>

fun connects :: "effect \<Rightarrow> bool" where
  "connects (NewWebSocket sock) = True"
| "connects (SetTimeout h reconnect_callback d) = True"
| "connects e = False"

section \<open>api-service.js\<close>

text \<open>Decimal digits of a number, as a template literal prints it.\<close>

fun dec :: "nat \<Rightarrow> string" where
  "dec n = (if n < 10 then [char_of (48 + n)] else dec (n div 10) @ [char_of (48 + n mod 10)])"

declare dec.simps [simp del]

datatype js_error = JsError (name: string) (message: string)

text \<open>
  The response envelope \<open>{success, data, error}\<close>: \<open>success\<close> is the truthiness of the
  field, \<open>error\<close> the message if the field is there. The cache maps a key to
  \<open>{data, timestamp}\<close> (the field \<open>data\<close> of an entry is \<open>cached_data\<close> here) and keeps
  the insertion order of a \<open>Map\<close>. The options of a request are reduced to their
  \<open>method\<close>, the field \<open>req_method\<close>.
\<close>

record 'd envelope =
  success :: bool
  data :: 'd
  error :: "string option"

record 'd cache_entry =
  cached_data :: "'d envelope"
  timestamp :: int

record request_metrics =
  requestCount :: nat
  successCount :: nat
  errorCount :: nat
  avgResponseTime :: real
  lastRequestTime :: "int option"

text \<open>
  The service object; \<open>network\<close> lists the calls of \<open>fetch\<close> that were issued (method
  and address), oldest first.
\<close>

record 'd api_service =
  baseUrl :: string
  timeout :: nat
  cache :: "(string \<times> 'd cache_entry) list"
  cacheTimeout :: int
  metrics :: request_metrics
  network :: "(string \<times> string) list"

record request_options = req_method :: "string option"

text \<open>
  The readings of the clock that one call of \<open>request\<close> takes, in the order of the
  source: \<open>Date.now()\<close> at entry, \<open>new Date()\<close> for \<open>lastRequestTime\<close>, \<open>Date.now()\<close>
  in \<open>getFromCache\<close>, after \<open>fetch\<close> resolved, in \<open>setCache\<close> and in \<open>cleanupCache\<close>.
\<close>

record clock =
  t_start :: int
  t_request :: int
  t_lookup :: int
  t_response :: int
  t_store :: int
  t_cleanup :: int

text \<open>
  What the network answers: \<open>fetch\<close> rejects (an abort by the timer of \<open>request\<close> is
  the error named \<open>AbortError\<close>), or it resolves with a status, a status text and a body, which is not
  JSON, the JSON value \<open>null\<close>, or an envelope.
\<close>

datatype 'd body = not_json js_error | json_null | json_object "'d envelope"

datatype 'd fetch_outcome = fetch_rejected js_error | response nat string "'d body"

definition truthy_string :: "string option \<Rightarrow> bool" where
  "truthy_string m = (m \<noteq> None \<and> m \<noteq> Some [])"

text \<open>\<open>!options.method || options.method === 'GET'\<close>\<close>

definition is_GET :: "request_options \<Rightarrow> bool" where
  "is_GET options = (\<not> truthy_string (req_method options) \<or> req_method options = Some ''GET'')"

text \<open>\<open>options.method || 'GET'\<close>, and the method of \<open>requestOptions\<close>.\<close>

definition method_or_GET :: "request_options \<Rightarrow> string" where
  "method_or_GET options =
     (if truthy_string (req_method options) then the (req_method options) else ''GET'')"

definition fetch_method :: "request_options \<Rightarrow> string" where
  "fetch_method options = (case req_method options of None \<Rightarrow> ''GET'' | Some m \<Rightarrow> m)"

definition request_url :: "'d api_service \<Rightarrow> string \<Rightarrow> string" where
  "request_url s endpoint = (if startsWith endpoint ''http'' then endpoint else baseUrl s @ endpoint)"

definition cache_key :: "'d api_service \<Rightarrow> string \<Rightarrow> request_options \<Rightarrow> string" where
  "cache_key s endpoint options = method_or_GET options @ ''_'' @ request_url s endpoint"

definition getFromCache ::
  "string \<Rightarrow> int \<Rightarrow> 'd api_service \<Rightarrow> 'd envelope option \<times> 'd api_service" where
  "getFromCache key now s =
     (case map_of (cache s) key of
        None \<Rightarrow> (None, s)
      | Some cached \<Rightarrow>
          if now - timestamp cached > cacheTimeout s
          then (None, s\<lparr>cache := AList.delete key (cache s)\<rparr>)
          else (Some (cached_data cached), s))"

definition cleanupCache :: "int \<Rightarrow> 'd api_service \<Rightarrow> 'd api_service" where
  "cleanupCache now s =
     s\<lparr>cache := filter (\<lambda>(key, cached). \<not> now - timestamp cached > cacheTimeout s) (cache s)\<rparr>"

definition setCache ::
  "string \<Rightarrow> 'd envelope \<Rightarrow> int \<Rightarrow> int \<Rightarrow> 'd api_service \<Rightarrow> 'd api_service" where
  "setCache key d now now_cleanup s =
     (let s1 = s\<lparr>cache := AList.update key \<lparr>cached_data = d, timestamp = now\<rparr> (cache s)\<rparr>
      in if length (cache s1) > 50 then cleanupCache now_cleanup s1 else s1)"

definition updateResponseTime :: "real \<Rightarrow> request_metrics \<Rightarrow> request_metrics" where
  "updateResponseTime responseTime m =
     (if avgResponseTime m = 0 then m\<lparr>avgResponseTime := responseTime\<rparr>
      else m\<lparr>avgResponseTime := avgResponseTime m * 0.8 + responseTime * 0.2\<rparr>)"

text \<open>The \<open>catch\<close> block of \<open>request\<close>.\<close>

definition request_catch ::
  "js_error \<Rightarrow> 'd api_service \<Rightarrow> (js_error + 'd envelope) \<times> 'd api_service" where
  "request_catch err s =
     (let s1 = s\<lparr>metrics := (metrics s)\<lparr>errorCount := errorCount (metrics s) + 1\<rparr>\<rparr>
      in if name err = ''AbortError''
         then (Inl (JsError ''Error'' (''Timeout de peticion ('' @ dec (timeout s) @ ''ms)'')), s1)
         else (Inl err, s1))"

text \<open>\<open>response.ok\<close>\<close>

definition ok :: "nat \<Rightarrow> bool" where
  "ok status = (200 \<le> status \<and> status \<le> 299)"

text \<open>
  The \<open>try\<close> block of \<open>request\<close>, from the call of \<open>fetch\<close> on; \<open>s\<close> is the service
  after the cache was consulted.
\<close>

definition request_try ::
  "string \<Rightarrow> string \<Rightarrow> request_options \<Rightarrow> clock \<Rightarrow> 'd fetch_outcome \<Rightarrow> 'd api_service
     \<Rightarrow> (js_error + 'd envelope) \<times> 'd api_service" where
  "request_try url cacheKey options clk outcome s =
     (let s3 = s\<lparr>network := network s @ [(fetch_method options, url)]\<rparr>
      in case outcome of
           fetch_rejected err \<Rightarrow> request_catch err s3
         | response status statusText b \<Rightarrow>
             let s4 = s3\<lparr>metrics :=
                        updateResponseTime (real_of_int (t_response clk - t_start clk))
                          (metrics s3)\<rparr>
             in if \<not> ok status
                then request_catch
                       (JsError ''Error'' (''HTTP '' @ dec status @ '': '' @ statusText)) s4
                else case b of
                       not_json err \<Rightarrow> request_catch err s4
                     | json_null \<Rightarrow>
                         request_catch
                           (JsError ''TypeError'' ''Cannot read properties of null'') s4
                     | json_object d \<Rightarrow>
                         if \<not> success d
                         then request_catch
                                (JsError ''Error''
                                   (if truthy_string (error d) then the (error d)
                                    else ''Error del servidor'')) s4
                         else
                           let s5 = (if is_GET options
                                     then setCache cacheKey d (t_store clk) (t_cleanup clk) s4
                                     else s4)
                           in (Inr d,
                               s5\<lparr>metrics := (metrics s5)
                                    \<lparr>successCount := successCount (metrics s5) + 1\<rparr>\<rparr>))"

text \<open>
  \<open>request\<close>: the two statements that count the call, the cache check of a GET, and
  then either the early return of the cached payload or the \<open>try\<close> block.
\<close>

definition count_request :: "clock \<Rightarrow> 'd api_service \<Rightarrow> 'd api_service" where
  "count_request clk s =
     s\<lparr>metrics := (metrics s)\<lparr>requestCount := requestCount (metrics s) + 1,
                               lastRequestTime := Some (t_request clk)\<rparr>\<rparr>"

definition check_cache ::
  "request_options \<Rightarrow> string \<Rightarrow> clock \<Rightarrow> 'd api_service \<Rightarrow> 'd envelope option \<times> 'd api_service" where
  "check_cache options cacheKey clk s =
     (if is_GET options then getFromCache cacheKey (t_lookup clk) s else (None, s))"

definition request ::
  "string \<Rightarrow> request_options \<Rightarrow> clock \<Rightarrow> 'd fetch_outcome \<Rightarrow> 'd api_service
     \<Rightarrow> (js_error + 'd envelope) \<times> 'd api_service" where
  "request endpoint options clk outcome s =
     (let url = request_url s endpoint;
          cacheKey = cache_key s endpoint options
      in case check_cache options cacheKey clk (count_request clk s) of
           (Some d, s2) \<Rightarrow> (Inr d, s2)
         | (None, s2) \<Rightarrow> request_try url cacheKey options clk outcome s2)"

text \<open>\<open>Math.round\<close> rounds a half upwards.\<close>

definition Math_round :: "real \<Rightarrow> real" where
  "Math_round x = real_of_int \<lfloor>x + 1 / 2\<rfloor>"

text \<open>
  \<open>calculateCacheHitRate\<close> and \<open>getMetrics\<close>; \<open>random\<close> is the value that
  \<open>Math.random()\<close> returns, a number that is at least 0 and less than 1.
\<close>

definition calculateCacheHitRate :: "real \<Rightarrow> 'd api_service \<Rightarrow> real" where
  "calculateCacheHitRate random s =
     (if length (cache s) > 0 then min (85 + random * 10) 100 else 0)"

record full_metrics = request_metrics +
  successRate :: real
  cacheSize :: nat
  cacheHitRate :: real

definition getMetrics :: "real \<Rightarrow> 'd api_service \<Rightarrow> full_metrics" where
  "getMetrics random s =
     (let rate = (if requestCount (metrics s) > 0
                  then real (successCount (metrics s)) / real (requestCount (metrics s)) * 100
                  else 0)
      in \<lparr> requestCount = requestCount (metrics s),
           successCount = successCount (metrics s),
           errorCount = errorCount (metrics s),
           avgResponseTime = Math_round (avgResponseTime (metrics s) * 100) / 100,
           lastRequestTime = lastRequestTime (metrics s),
           successRate = Math_round (rate * 100) / 100,
           cacheSize = length (cache s),
           cacheHitRate = calculateCacheHitRate random s \<rparr>)"

text \<open>
  \<open>getCompleteData\<close>, from the three results that \<open>Promise.allSettled\<close> delivers. A
  reading is \<open>{value, timestamp, rawData, source}\<close>; the statistics slot holds the
  object of \<open>getStats\<close> or the empty object; the field \<open>timestamp\<close> of the result is
  \<open>generated_at\<close> here. A rejection reason is an error object, as every error that
  \<open>request\<close> and its wrappers throw is, so that reading its \<open>message\<close> cannot fail and
  the \<open>catch\<close> block is never entered.
\<close>

datatype 'a settled = fulfilled 'a | rejected js_error

record reading =
  reading_value :: jsnum
  reading_timestamp :: jsval
  rawData :: jsval
  source :: string

record sensor_stats =
  totalReadings :: jsval
  minValue :: jsval
  maxValue :: jsval
  avgValue :: jsval
  firstReading :: jsval
  lastReading :: jsval

datatype stats_slot = empty_object | stats_object sensor_stats

record complete_data =
  latest :: "reading option"
  stats :: stats_slot
  recentHistory :: "reading list"
  generated_at :: string
  errors :: "string list"

definition getCompleteData ::
  "reading option settled \<Rightarrow> sensor_stats settled \<Rightarrow> reading list settled \<Rightarrow> string
     \<Rightarrow> js_error + complete_data" where
  "getCompleteData latest_result stats_result history_result now_iso =
     Inr \<lparr> latest = (case latest_result of fulfilled v \<Rightarrow> v | rejected e \<Rightarrow> None),
           stats = (case stats_result of fulfilled v \<Rightarrow> stats_object v | rejected e \<Rightarrow> empty_object),
           recentHistory = (case history_result of fulfilled v \<Rightarrow> v | rejected e \<Rightarrow> []),
           generated_at = now_iso,
           errors =
             (case latest_result of fulfilled v \<Rightarrow> [] | rejected e \<Rightarrow> [''Latest: '' @ message e]) @
             (case stats_result of fulfilled v \<Rightarrow> [] | rejected e \<Rightarrow> [''Stats: '' @ message e]) @
             (case history_result of fulfilled v \<Rightarrow> [] | rejected e \<Rightarrow> [''History: '' @ message e]) \<rparr>"

definition is_rejected :: "'a settled \<Rightarrow> bool" where
  "is_rejected r = (case r of fulfilled v \<Rightarrow> False | rejected e \<Rightarrow> True)"

section \<open>Concrete states\<close>

text \<open>
  A polling client that has answered one GET of \<open>/api/latest\<close> from the network at
  time 1000 and holds the answer in its cache, and the clock readings of a later call
  that starts at \<open>t\<close> and gets its response 20 ms later.
\<close>

definition example_api :: "nat api_service" where
  "example_api =
     \<lparr> baseUrl = ''http://localhost:8080'', timeout = 5000,
       cache = [(''GET_http://localhost:8080/api/latest'',
                 \<lparr>cached_data = \<lparr>success = True, data = 742, error = None\<rparr>, timestamp = 1000\<rparr>)],
       cacheTimeout = 300000,
       metrics = \<lparr>requestCount = 1, successCount = 1, errorCount = 0, avgResponseTime = 20,
                  lastRequestTime = Some 980\<rparr>,
       network = [(''GET'', ''http://localhost:8080/api/latest'')] \<rparr>"

definition clock_at :: "int \<Rightarrow> clock" where
  "clock_at t = \<lparr>t_start = t, t_request = t, t_lookup = t, t_response = t + 20,
                 t_store = t + 20, t_cleanup = t + 20\<rparr>"

definition no_options :: request_options where
  "no_options = \<lparr>req_method = None\<rparr>"

text \<open>
  A feed client that is connected: constructed, \<open>connect()\<close> called, socket opened at
  time 0. And one whose socket then closed abnormally, so that a reconnect timer is armed.
\<close>

definition connected_service :: ws_service where
  "connected_service =
     promise_settles (handleOpen 0 (snd (connect False (new_WebSocketService 1))))"

definition abnormal_close :: close_event where
  "abnormal_close = \<lparr>code = 1006, reason = [], wasClean = False\<rparr>"

definition reconnecting_service :: ws_service where
  "reconnecting_service = handleClose abnormal_close connected_service"

text \<open>
  While that reconnect timer is armed the page calls \<open>connect()\<close> itself and the new
  socket opens at time 5: the client is connected and the timer is still armed. And the
  close event of a completed \<open>disconnect()\<close>.
\<close>

definition racing_service :: ws_service where
  "racing_service =
     promise_settles (handleOpen 5 (snd (connect False reconnecting_service)))"

definition clean_close :: close_event where
  "clean_close = \<lparr>code = 1000, reason = ''Desconexion manual'', wasClean = True\<rparr>"

section \<open>Reconnect delay\<close>

lemma RECONNECT_DELAY_undefined:
  "js_get (js_get APP_CONFIG ''RECONNECTION'') ''RECONNECT_DELAY'' = Undefined"
  by (simp add: APP_CONFIG_def)

lemma RECONNECT_DELAY_lives_in_TIMEOUTS:
  "js_get (js_get APP_CONFIG ''TIMEOUTS'') ''RECONNECT_DELAY'' = Number (Num 3000)"
  by (simp add: APP_CONFIG_def)

text \<open>
  C3. With the shipped configuration the delay computed for every attempt is NaN and
  not \<open>min(3000 * 1.5^(n-1), 30000)\<close>: the base delay is read from
  \<open>APP_CONFIG.RECONNECTION.RECONNECT_DELAY\<close>, a property that does not exist (the
  constant 3000 is stored under \<open>TIMEOUTS\<close>). For the first attempt the claim asks for
  3000.
\<close>

theorem C3_reconnect_delay_is_NaN:
  "reconnect_delay APP_CONFIG 1 = NaN \<and> reconnect_delay APP_CONFIG 1 \<noteq> Num 3000
   \<and> reconnect_delay APP_CONFIG n = NaN"
proof -
  have "reconnect_delay APP_CONFIG k = NaN" for k
    unfolding reconnect_delay_def RECONNECT_DELAY_undefined by simp
  then show ?thesis by simp
qed

section \<open>Latency smoothing\<close>

text \<open>
  C8, as the code has it. After the first sample the stored average is that sample. A
  later sample \<open>v\<close> turns a stored average \<open>a\<close> that is not 0 into
  \<open>0.8 * a + 0.2 * v\<close>; a stored average of 0 is replaced by the sample.
\<close>

theorem C8_latency_smoothing:
  "fold_latency [s] = s
   \<and> (fold_latency xs = Num a \<and> a \<noteq> 0 \<longrightarrow> fold_latency (xs @ [Num v]) = Num (0.8 * a + 0.2 * v))
   \<and> (fold_latency xs = Num 0 \<longrightarrow> fold_latency (xs @ [s]) = s)"
  by (simp add: fold_latency_def updateLatency_def)

text \<open>The theorem at the samples 100, 50 and at the samples 0, 10.\<close>

theorem C8_witness:
  "fold_latency [Num 100, Num 50] = Num 90 \<and> fold_latency [Num 0, Num 10] = Num 10"
  using C8_latency_smoothing [of "Num 100" "[Num 100]" 100 50]
    C8_latency_smoothing [of "Num 10" "[Num 0]" 0 0]
    C8_latency_smoothing [of "Num 0" "[]" 0 0]
  by simp

text \<open>
  The claim as stated fails when the first sample is 0: the second sample 10 is stored
  as it is, where the smoothing formula gives 2.
\<close>

theorem C8_counterexample:
  "fold_latency [Num 0] = Num 0
   \<and> fold_latency [Num 0, Num 10] = Num 10
   \<and> fold_latency [Num 0, Num 10] \<noteq> js_add (js_mul (fold_latency [Num 0]) (Num 0.8)) (js_mul (Num 10) (Num 0.2))"
  by (simp add: fold_latency_def updateLatency_def)

section \<open>The feed client: closing, reconnecting, connecting\<close>

lemma stopPingInterval_fields:
  "pingInterval (stopPingInterval s) = None"
  "isConnected (stopPingInterval s) = isConnected s"
  "reconnectAttempts (stopPingInterval s) = reconnectAttempts s"
  "maxReconnectAttempts (stopPingInterval s) = maxReconnectAttempts s"
  "reconnectTimeout (stopPingInterval s) = reconnectTimeout s"
  "totalReconnects (stopPingInterval s) = totalReconnects s"
  "ws (stopPingInterval s) = ws s"
  "fresh (stopPingInterval s) = fresh s"
  "effects (stopPingInterval s) =
     effects s @ (case pingInterval s of None \<Rightarrow> [] | Some h \<Rightarrow> [ClearInterval h])"
  "timers (stopPingInterval s) =
     (case pingInterval s of None \<Rightarrow> timers s | Some h \<Rightarrow> removeAll h (timers s))"
  by (simp_all add: stopPingInterval_def split: option.split)

lemma attemptReconnect_exhausted:
  "maxReconnectAttempts s = Num m \<Longrightarrow> m \<le> real (reconnectAttempts s) \<Longrightarrow>
     attemptReconnect s =
       s\<lparr>effects := effects s @ [Emit (onError (max_reconnects_reached (reconnectAttempts s)))]\<rparr>"
  by (simp add: attemptReconnect_def triggerCallbacks_def)

lemma attemptReconnect_schedules:
  "maxReconnectAttempts s = Num m \<Longrightarrow> real (reconnectAttempts s) < m \<Longrightarrow>
     attemptReconnect s =
       s\<lparr>reconnectAttempts := reconnectAttempts s + 1,
         totalReconnects := totalReconnects s + 1,
         effects := effects s @
           [Emit (onReconnecting (reconnectAttempts s + 1) (Some (Num m))
                    (Some (reconnect_delay APP_CONFIG (reconnectAttempts s + 1)))),
            SetTimeout (fresh s) reconnect_callback
              (reconnect_delay APP_CONFIG (reconnectAttempts s + 1))],
         reconnectTimeout := Some (fresh s),
         timers := timers s @ [fresh s],
         fresh := Suc (fresh s)\<rparr>"
  by (simp add: attemptReconnect_def triggerCallbacks_def Let_def)

text \<open>The part of \<open>handleClose\<close> before the reconnect test.\<close>

lemma handleClose_clean:
  "wasClean ev \<or> code ev = 1000 \<Longrightarrow>
     handleClose ev s =
       triggerCallbacks (onDisconnected (code ev) (reason ev) (wasClean ev))
         (stopPingInterval (s\<lparr>isConnected := False\<rparr>))"
  by (auto simp add: handleClose_def Let_def)

lemma handleClose_abnormal:
  "abnormal ev \<Longrightarrow>
     handleClose ev s =
       attemptReconnect
         (triggerCallbacks (onDisconnected (code ev) (reason ev) (wasClean ev))
            (stopPingInterval (s\<lparr>isConnected := False\<rparr>)))"
  by (simp add: handleClose_def Let_def abnormal_def)

lemma closed_fields:
  "pingInterval (triggerCallbacks e (stopPingInterval (s\<lparr>isConnected := False\<rparr>))) = None"
  "isConnected (triggerCallbacks e (stopPingInterval (s\<lparr>isConnected := False\<rparr>))) = False"
  "reconnectAttempts (triggerCallbacks e (stopPingInterval (s\<lparr>isConnected := False\<rparr>))) = reconnectAttempts s"
  "maxReconnectAttempts (triggerCallbacks e (stopPingInterval (s\<lparr>isConnected := False\<rparr>))) = maxReconnectAttempts s"
  "totalReconnects (triggerCallbacks e (stopPingInterval (s\<lparr>isConnected := False\<rparr>))) = totalReconnects s"
  "reconnectTimeout (triggerCallbacks e (stopPingInterval (s\<lparr>isConnected := False\<rparr>))) = reconnectTimeout s"
  "effects (triggerCallbacks e (stopPingInterval (s\<lparr>isConnected := False\<rparr>))) =
     effects s @ (case pingInterval s of None \<Rightarrow> [] | Some h \<Rightarrow> [ClearInterval h]) @ [Emit e]"
  "timers (triggerCallbacks e (stopPingInterval (s\<lparr>isConnected := False\<rparr>))) =
     (case pingInterval s of None \<Rightarrow> timers s | Some h \<Rightarrow> removeAll h (timers s))"
  by (simp_all add: triggerCallbacks_def stopPingInterval_fields split: option.split)

lemma handleClose_exhausted:
  assumes "abnormal ev" "maxReconnectAttempts s = Num m" "m \<le> real (reconnectAttempts s)"
  shows "reconnectAttempts (handleClose ev s) = reconnectAttempts s"
    and "maxReconnectAttempts (handleClose ev s) = Num m"
    and "pingInterval (handleClose ev s) = None"
    and "effects (handleClose ev s) =
           effects s @ (case pingInterval s of None \<Rightarrow> [] | Some h \<Rightarrow> [ClearInterval h]) @
             [Emit (onDisconnected (code ev) (reason ev) (wasClean ev)),
              Emit (onError (max_reconnects_reached (reconnectAttempts s)))]"
    and "timers (handleClose ev s) =
           (case pingInterval s of None \<Rightarrow> timers s | Some h \<Rightarrow> removeAll h (timers s))"
    and "reconnectTimeout (handleClose ev s) = reconnectTimeout s"
    and "\<not> isConnected (handleClose ev s)"
  using assms
  by (simp_all add: handleClose_abnormal attemptReconnect_exhausted closed_fields)

lemma handleClose_schedules:
  assumes "abnormal ev" "maxReconnectAttempts s = Num m" "real (reconnectAttempts s) < m"
  shows "reconnectAttempts (handleClose ev s) = reconnectAttempts s + 1"
    and "totalReconnects (handleClose ev s) = totalReconnects s + 1"
    and "maxReconnectAttempts (handleClose ev s) = Num m"
    and "pingInterval (handleClose ev s) = None"
    and "\<not> isConnected (handleClose ev s)"
    and "reconnectTimeout (handleClose ev s) = Some (fresh s)"
    and "fresh s \<in> set (timers (handleClose ev s))"
    and "effects (handleClose ev s) =
           effects s @ (case pingInterval s of None \<Rightarrow> [] | Some h \<Rightarrow> [ClearInterval h]) @
             [Emit (onDisconnected (code ev) (reason ev) (wasClean ev)),
              Emit (onReconnecting (reconnectAttempts s + 1) (Some (Num m))
                    (Some (reconnect_delay APP_CONFIG (reconnectAttempts s + 1)))),
              SetTimeout (fresh s) reconnect_callback
                (reconnect_delay APP_CONFIG (reconnectAttempts s + 1))]"
  using assms
  by (simp_all add: handleClose_abnormal attemptReconnect_schedules closed_fields stopPingInterval_fields triggerCallbacks_def)

lemma connect_disconnected_fields:
  assumes "\<not> isConnected s"
  shows "reconnectAttempts (snd (connect False s)) = reconnectAttempts s"
    and "totalReconnects (snd (connect False s)) = totalReconnects s"
    and "maxReconnectAttempts (snd (connect False s)) = maxReconnectAttempts s"
    and "pingInterval (snd (connect False s)) = pingInterval s"
    and "\<not> isConnected (snd (connect False s))"
    and "effects (snd (connect False s)) =
           effects s @ [Emit (onReconnecting (reconnectAttempts s + 1) None None),
                        NewWebSocket (fresh s),
                        SetTimeout (Suc (fresh s)) connection_timeout
                          (ToNumber (js_get (js_get APP_CONFIG ''TIMEOUTS'') ''WS_CONNECTION''))]"
  using assms by (simp_all add: connect_def triggerCallbacks_def Let_def)

lemma closure_round_schedules:
  assumes "abnormal ev" "maxReconnectAttempts s = Num m" "real (reconnectAttempts s) < m"
  shows "reconnectAttempts (closure_round ev s) = reconnectAttempts s + 1"
    and "totalReconnects (closure_round ev s) = totalReconnects s + 1"
    and "maxReconnectAttempts (closure_round ev s) = Num m"
    and "pingInterval (closure_round ev s) = None"
    and "\<not> isConnected (closure_round ev s)"
proof -
  let ?s1 = "handleClose ev s"
  have r: "closure_round ev s = snd (connect False (?s1\<lparr>timers := removeAll (fresh s) (timers ?s1)\<rparr>))"
    using handleClose_schedules(6,7) [OF assms]
    by (simp add: closure_round_def Let_def reconnect_timer_fires_def)
  have d: "\<not> isConnected (?s1\<lparr>timers := removeAll (fresh s) (timers ?s1)\<rparr>)"
    using handleClose_schedules(5) [OF assms] by simp
  show "reconnectAttempts (closure_round ev s) = reconnectAttempts s + 1"
    and "totalReconnects (closure_round ev s) = totalReconnects s + 1"
    and "maxReconnectAttempts (closure_round ev s) = Num m"
    and "pingInterval (closure_round ev s) = None"
    and "\<not> isConnected (closure_round ev s)"
    unfolding r using connect_disconnected_fields [OF d] handleClose_schedules [OF assms]
    by simp_all
qed

lemma closures_count:
  "\<forall>e\<in>set evs. abnormal e \<Longrightarrow> maxReconnectAttempts s = Num m \<Longrightarrow>
   real (reconnectAttempts s + length evs) \<le> m \<Longrightarrow>
     reconnectAttempts (closures evs s) = reconnectAttempts s + length evs
     \<and> totalReconnects (closures evs s) = totalReconnects s + length evs
     \<and> maxReconnectAttempts (closures evs s) = Num m
     \<and> (evs \<noteq> [] \<longrightarrow> pingInterval (closures evs s) = None \<and> \<not> isConnected (closures evs s))"
proof (induction evs arbitrary: s)
  case Nil
  then show ?case by simp
next
  case (Cons ev evs)
  have a: "abnormal ev" and lt: "real (reconnectAttempts s) < m"
    using Cons.prems by simp_all
  note r = closure_round_schedules [OF a Cons.prems(2) lt]
  have "real (reconnectAttempts (closure_round ev s) + length evs) \<le> m"
    using Cons.prems(3) by (simp add: r(1))
  with Cons.IH [of "closure_round ev s"] Cons.prems(1) r
  show ?case
    by (cases evs) auto
qed

lemma handleCloses_exhausted:
  "\<forall>e\<in>set evs. abnormal e \<Longrightarrow> maxReconnectAttempts s = Num m \<Longrightarrow>
   m \<le> real (reconnectAttempts s) \<Longrightarrow> pingInterval s = None \<Longrightarrow>
     timers (handleCloses evs s) = timers s
     \<and> filter connects (effects (handleCloses evs s)) = filter connects (effects s)
     \<and> reconnectAttempts (handleCloses evs s) = reconnectAttempts s"
proof (induction evs arbitrary: s)
  case Nil
  then show ?case by simp
next
  case (Cons ev evs)
  have a: "abnormal ev" using Cons.prems by simp
  note h = handleClose_exhausted [OF a Cons.prems(2,3)]
  have "timers (handleCloses evs (handleClose ev s)) = timers (handleClose ev s)
     \<and> filter connects (effects (handleCloses evs (handleClose ev s))) = filter connects (effects (handleClose ev s))
     \<and> reconnectAttempts (handleCloses evs (handleClose ev s)) = reconnectAttempts (handleClose ev s)"
    using Cons.prems by (intro Cons.IH) (simp_all add: h)
  then show ?case
    by (simp add: h Cons.prems(4))
qed

lemma handleClose_exhausted_fresh:
  assumes "abnormal ev" "maxReconnectAttempts s = Num m" "m \<le> real (reconnectAttempts s)"
  shows "fresh (handleClose ev s) = fresh s"
  using assms
  by (simp add: handleClose_abnormal attemptReconnect_exhausted triggerCallbacks_def stopPingInterval_fields)

lemma disconnect_connected:
  assumes "ws s = Some sock" "isConnected s" "close_args_ok c r"
  shows "fst (disconnect c r s) = None"
    and "effects (snd (disconnect c r s)) =
           effects s @ (case pingInterval s of None \<Rightarrow> [] | Some h \<Rightarrow> [ClearInterval h])
                    @ (case reconnectTimeout s of None \<Rightarrow> [] | Some h \<Rightarrow> [ClearTimeout h])
                    @ [WsClose sock c r]"
    and "pingInterval (snd (disconnect c r s)) = None"
    and "reconnectTimeout (snd (disconnect c r s)) = None"
    and "timers (snd (disconnect c r s)) =
           (case reconnectTimeout s of None \<Rightarrow> (\<lambda>x. x) | Some h \<Rightarrow> removeAll h)
             ((case pingInterval s of None \<Rightarrow> (\<lambda>x. x) | Some h \<Rightarrow> removeAll h) (timers s))"
  using assms
  by (simp_all add: disconnect_def Let_def stopPingInterval_fields split: option.split)

lemma disconnect_not_connected:
  "ws s = None \<or> \<not> isConnected s \<Longrightarrow> disconnect c r s = (None, s)"
  by (auto simp add: disconnect_def split: option.split)

lemma racing_service_facts:
  "ws racing_service = Some 5" "isConnected racing_service"
  "pingInterval racing_service = Some 7" "reconnectTimeout racing_service = Some 4"
  "timers racing_service = [4, 7]"
  by code_simp+

lemma reconnecting_service_facts:
  "\<not> isConnected reconnecting_service" "reconnectTimeout reconnecting_service = Some 4"
  "timers reconnecting_service = [4]"
  by code_simp+

lemma connected_service_facts:
  "maxReconnectAttempts connected_service = Num 10" "reconnectAttempts connected_service = 0"
  "pingInterval connected_service = Some 3" "fresh connected_service = 4"
  "timers connected_service = [3]" "reconnectTimeout connected_service = None"
  by code_simp+

lemma connected_service_isConnected: "isConnected connected_service"
  by (simp add: connected_service_def promise_settles_def handleOpen_def triggerCallbacks_def
      startPingInterval_def connect_def new_WebSocketService_def split: option.split)

text \<open>
  What \<open>disconnect\<close> does when the client holds a socket and is connected (the ping
  interval is stopped and the stored reconnect timer cleared, in this order and before
  the socket is closed) and when it is not (nothing), and which close events enter
  \<open>attemptReconnect\<close>: those that are not clean and whose code is not 1000.
\<close>

lemma disconnect_and_close_guard:
  "(ws s = Some sock \<and> isConnected s \<and> close_args_ok c r \<longrightarrow>
       fst (disconnect c r s) = None
     \<and> effects (snd (disconnect c r s)) =
         effects s @ (case pingInterval s of None \<Rightarrow> [] | Some h \<Rightarrow> [ClearInterval h])
                  @ (case reconnectTimeout s of None \<Rightarrow> [] | Some h \<Rightarrow> [ClearTimeout h])
                  @ [WsClose sock c r]
     \<and> pingInterval (snd (disconnect c r s)) = None
     \<and> reconnectTimeout (snd (disconnect c r s)) = None
     \<and> (\<forall>h. pingInterval s = Some h \<or> reconnectTimeout s = Some h \<longrightarrow>
           h \<notin> set (timers (snd (disconnect c r s)))))
   \<and> (ws s = None \<or> \<not> isConnected s \<longrightarrow> disconnect c r s = (None, s))
   \<and> (wasClean ev \<or> code ev = 1000 \<longrightarrow>
        effects (handleClose ev s) =
          effects s @ (case pingInterval s of None \<Rightarrow> [] | Some h \<Rightarrow> [ClearInterval h])
                   @ [Emit (onDisconnected (code ev) (reason ev) (wasClean ev))]
      \<and> reconnectAttempts (handleClose ev s) = reconnectAttempts s
      \<and> reconnectTimeout (handleClose ev s) = reconnectTimeout s
      \<and> set (timers (handleClose ev s)) \<subseteq> set (timers s))
   \<and> (\<not> wasClean ev \<and> code ev \<noteq> 1000 \<and> maxReconnectAttempts s = Num m
        \<and> real (reconnectAttempts s) < m \<longrightarrow>
        reconnectAttempts (handleClose ev s) = reconnectAttempts s + 1
      \<and> reconnectTimeout (handleClose ev s) = Some (fresh s)
      \<and> fresh s \<in> set (timers (handleClose ev s))
      \<and> last (effects (handleClose ev s)) =
          SetTimeout (fresh s) reconnect_callback
            (reconnect_delay APP_CONFIG (reconnectAttempts s + 1)))
   \<and> (\<not> wasClean ev \<and> code ev \<noteq> 1000 \<and> maxReconnectAttempts s = Num m
        \<and> m \<le> real (reconnectAttempts s) \<longrightarrow>
        last (effects (handleClose ev s)) =
          Emit (onError (max_reconnects_reached (reconnectAttempts s)))
      \<and> timers (handleClose ev s) =
          (case pingInterval s of None \<Rightarrow> timers s | Some h \<Rightarrow> removeAll h (timers s)))"
proof (intro conjI)
  show "ws s = Some sock \<and> isConnected s \<and> close_args_ok c r \<longrightarrow>
       fst (disconnect c r s) = None
     \<and> effects (snd (disconnect c r s)) =
         effects s @ (case pingInterval s of None \<Rightarrow> [] | Some h \<Rightarrow> [ClearInterval h])
                  @ (case reconnectTimeout s of None \<Rightarrow> [] | Some h \<Rightarrow> [ClearTimeout h])
                  @ [WsClose sock c r]
     \<and> pingInterval (snd (disconnect c r s)) = None
     \<and> reconnectTimeout (snd (disconnect c r s)) = None
     \<and> (\<forall>h. pingInterval s = Some h \<or> reconnectTimeout s = Some h \<longrightarrow>
           h \<notin> set (timers (snd (disconnect c r s))))"
  proof (intro impI, elim conjE)
    assume a: "ws s = Some sock" "isConnected s" "close_args_ok c r"
    note d = disconnect_connected [OF a]
    have "\<forall>h. pingInterval s = Some h \<or> reconnectTimeout s = Some h \<longrightarrow>
           h \<notin> set (timers (snd (disconnect c r s)))"
      unfolding d(5) by (auto split: option.split)
    with d(1-4) show "fst (disconnect c r s) = None
     \<and> effects (snd (disconnect c r s)) =
         effects s @ (case pingInterval s of None \<Rightarrow> [] | Some h \<Rightarrow> [ClearInterval h])
                  @ (case reconnectTimeout s of None \<Rightarrow> [] | Some h \<Rightarrow> [ClearTimeout h])
                  @ [WsClose sock c r]
     \<and> pingInterval (snd (disconnect c r s)) = None
     \<and> reconnectTimeout (snd (disconnect c r s)) = None
     \<and> (\<forall>h. pingInterval s = Some h \<or> reconnectTimeout s = Some h \<longrightarrow>
           h \<notin> set (timers (snd (disconnect c r s))))"
      by blast
  qed
next
  show "ws s = None \<or> \<not> isConnected s \<longrightarrow> disconnect c r s = (None, s)"
    by (simp add: disconnect_not_connected)
next
  show "wasClean ev \<or> code ev = 1000 \<longrightarrow>
        effects (handleClose ev s) =
          effects s @ (case pingInterval s of None \<Rightarrow> [] | Some h \<Rightarrow> [ClearInterval h])
                   @ [Emit (onDisconnected (code ev) (reason ev) (wasClean ev))]
      \<and> reconnectAttempts (handleClose ev s) = reconnectAttempts s
      \<and> reconnectTimeout (handleClose ev s) = reconnectTimeout s
      \<and> set (timers (handleClose ev s)) \<subseteq> set (timers s)"
    by (auto simp add: handleClose_clean closed_fields split: option.split)
next
  show "\<not> wasClean ev \<and> code ev \<noteq> 1000 \<and> maxReconnectAttempts s = Num m
        \<and> real (reconnectAttempts s) < m \<longrightarrow>
        reconnectAttempts (handleClose ev s) = reconnectAttempts s + 1
      \<and> reconnectTimeout (handleClose ev s) = Some (fresh s)
      \<and> fresh s \<in> set (timers (handleClose ev s))
      \<and> last (effects (handleClose ev s)) =
          SetTimeout (fresh s) reconnect_callback
            (reconnect_delay APP_CONFIG (reconnectAttempts s + 1))"
  proof (intro impI, elim conjE)
    assume a: "\<not> wasClean ev" "code ev \<noteq> 1000" "maxReconnectAttempts s = Num m"
      "real (reconnectAttempts s) < m"
    then have ab: "abnormal ev" by (simp add: abnormal_def)
    note h = handleClose_schedules [OF ab a(3,4)]
    show "reconnectAttempts (handleClose ev s) = reconnectAttempts s + 1
      \<and> reconnectTimeout (handleClose ev s) = Some (fresh s)
      \<and> fresh s \<in> set (timers (handleClose ev s))
      \<and> last (effects (handleClose ev s)) =
          SetTimeout (fresh s) reconnect_callback
            (reconnect_delay APP_CONFIG (reconnectAttempts s + 1))"
      using h(1,6,7) by (simp add: h(8))
  qed
next
  show "\<not> wasClean ev \<and> code ev \<noteq> 1000 \<and> maxReconnectAttempts s = Num m
        \<and> m \<le> real (reconnectAttempts s) \<longrightarrow>
        last (effects (handleClose ev s)) =
          Emit (onError (max_reconnects_reached (reconnectAttempts s)))
      \<and> timers (handleClose ev s) =
          (case pingInterval s of None \<Rightarrow> timers s | Some h \<Rightarrow> removeAll h (timers s))"
  proof (intro impI, elim conjE)
    assume a: "\<not> wasClean ev" "code ev \<noteq> 1000" "maxReconnectAttempts s = Num m"
      "m \<le> real (reconnectAttempts s)"
    then have ab: "abnormal ev" by (simp add: abnormal_def)
    note h = handleClose_exhausted [OF ab a(3,4)]
    show "last (effects (handleClose ev s)) =
          Emit (onError (max_reconnects_reached (reconnectAttempts s)))
      \<and> timers (handleClose ev s) =
          (case pingInterval s of None \<Rightarrow> timers s | Some h \<Rightarrow> removeAll h (timers s))"
      by (simp add: h(4,5))
  qed
qed

text \<open>
  At concrete clients: a connected one with both timers armed, where \<open>disconnect\<close>
  clears both and closes; one that is reconnecting; and close events of both kinds.
\<close>

lemma disconnect_and_close_guard_examples:
  "effects (snd (disconnect 1000 ''Desconexion manual'' racing_service)) =
     effects racing_service @ [ClearInterval 7, ClearTimeout 4, WsClose 5 1000 ''Desconexion manual'']
   \<and> 4 \<notin> set (timers (snd (disconnect 1000 ''Desconexion manual'' racing_service)))
   \<and> 7 \<notin> set (timers (snd (disconnect 1000 ''Desconexion manual'' racing_service)))
   \<and> disconnect 1000 ''Desconexion manual'' reconnecting_service = (None, reconnecting_service)
   \<and> effects (handleClose clean_close connected_service) =
       effects connected_service @ [ClearInterval 3, Emit (onDisconnected 1000 ''Desconexion manual'' True)]
   \<and> reconnectTimeout (handleClose clean_close connected_service) = None
   \<and> reconnectTimeout (handleClose abnormal_close connected_service) = Some 4
   \<and> 4 \<in> set (timers (handleClose abnormal_close connected_service))
   \<and> last (effects (handleClose abnormal_close (connected_service\<lparr>reconnectAttempts := 10\<rparr>))) =
       Emit (onError (max_reconnects_reached 10))"
  using
    disconnect_and_close_guard [of racing_service 5 1000 "''Desconexion manual''" clean_close 10]
    disconnect_and_close_guard [of reconnecting_service 5 1000 "''Desconexion manual''" clean_close 10]
    disconnect_and_close_guard [of connected_service 1 1000 "''Desconexion manual''" clean_close 10]
    disconnect_and_close_guard [of connected_service 1 1000 "''Desconexion manual''" abnormal_close 10]
    disconnect_and_close_guard [of "connected_service\<lparr>reconnectAttempts := 10\<rparr>" 1 1000
       "''Desconexion manual''" abnormal_close 10]
  by (simp add: racing_service_facts reconnecting_service_facts connected_service_facts
        close_args_ok_def clean_close_def abnormal_close_def)

text \<open>
  C1. The claim, that \<open>disconnect()\<close> cancels any pending reconnect timer, fails on
  the code while the client is reconnecting. After an abnormal close the client is not
  connected and the reconnect timer 4 is armed; \<open>disconnect()\<close> then changes nothing,
  since its whole body is guarded by \<open>isConnected\<close>: the handle is still stored, the
  timer is still armed, and when it fires \<open>connect()\<close> opens a new socket.
\<close>

theorem C1_disconnect_while_reconnecting:
  "\<not> isConnected reconnecting_service
   \<and> reconnectTimeout reconnecting_service = Some 4
   \<and> 4 \<in> set (timers reconnecting_service)
   \<and> disconnect 1000 ''Desconexion manual'' reconnecting_service = (None, reconnecting_service)
   \<and> reconnectTimeout (snd (disconnect 1000 ''Desconexion manual'' reconnecting_service)) = Some 4
   \<and> 4 \<in> set (timers (snd (disconnect 1000 ''Desconexion manual'' reconnecting_service)))
   \<and> NewWebSocket 5 \<in> set (effects (reconnect_timer_fires False 4
         (snd (disconnect 1000 ''Desconexion manual'' reconnecting_service))))"
proof -
  have d: "disconnect 1000 ''Desconexion manual'' reconnecting_service = (None, reconnecting_service)"
    using reconnecting_service_facts(1) by (simp add: disconnect_not_connected)
  have f: "NewWebSocket 5 \<in> set (effects (reconnect_timer_fires False 4 reconnecting_service))"
    by code_simp
  show ?thesis
    using reconnecting_service_facts f by (simp add: d)
qed

text \<open>
  C2. With \<open>maxReconnectAttempts = 10\<close> and a counter of 0, ten consecutive abnormal
  closures, each followed by the firing of the reconnect timer it armed, use up ten
  attempts. The eleventh abnormal closure then adds exactly two effects, the
  \<open>onDisconnected\<close> notification and one \<open>max_reconnects_reached\<close> error, and arms no
  timer; any further abnormal closures arm no timer and open no socket either.
  \<open>forceReconnect\<close> sets the counter back to 0 and opens a socket.
\<close>

theorem C2_max_reconnects_reached:
  "maxReconnectAttempts s = Num 10 \<and> reconnectAttempts s = 0 \<and> length evs = 10
     \<and> (\<forall>e\<in>set evs. abnormal e) \<and> abnormal ev \<and> (\<forall>e\<in>set later. abnormal e) \<longrightarrow>
   reconnectAttempts (closures evs s) = 10
   \<and> totalReconnects (closures evs s) = totalReconnects s + 10
   \<and> effects (handleClose ev (closures evs s)) =
       effects (closures evs s) @
         [Emit (onDisconnected (code ev) (reason ev) False),
          Emit (onError (max_reconnects_reached 10))]
   \<and> timers (handleClose ev (closures evs s)) = timers (closures evs s)
   \<and> timers (handleCloses later (handleClose ev (closures evs s))) = timers (closures evs s)
   \<and> filter connects (effects (handleCloses later (handleClose ev (closures evs s)))) =
       filter connects (effects (closures evs s))
   \<and> reconnectAttempts (snd (forceReconnect None False (handleClose ev (closures evs s)))) = 0
   \<and> filter connects (effects (snd (forceReconnect None False (handleClose ev (closures evs s))))) =
       filter connects (effects (closures evs s)) @ [NewWebSocket (fresh (closures evs s))]"
proof (intro impI, elim conjE)
  assume a: "maxReconnectAttempts s = Num 10" "reconnectAttempts s = 0" "length evs = 10"
    "\<forall>e\<in>set evs. abnormal e" "abnormal ev" "\<forall>e\<in>set later. abnormal e"
  let ?s10 = "closures evs s"
  let ?sx = "handleClose ev ?s10"
  have ne: "evs \<noteq> []" using a(3) by auto
  have "real (reconnectAttempts s + length evs) \<le> 10" using a(2,3) by simp
  from closures_count [OF a(4) a(1) this] ne
  have c: "reconnectAttempts ?s10 = 10" "totalReconnects ?s10 = totalReconnects s + 10"
    "maxReconnectAttempts ?s10 = Num 10" "pingInterval ?s10 = None"
    using a(2,3) by simp_all
  have ex: "(10::real) \<le> real (reconnectAttempts ?s10)" by (simp add: c(1))
  note h = handleClose_exhausted [OF a(5) c(3) ex] handleClose_exhausted_fresh [OF a(5) c(3) ex]
  have w: "wasClean ev = False" using a(5) by (simp add: abnormal_def)
  have e: "effects ?sx = effects ?s10 @
         [Emit (onDisconnected (code ev) (reason ev) False),
          Emit (onError (max_reconnects_reached 10))]"
    by (simp add: h(4) c w)
  have t: "timers ?sx = timers ?s10" by (simp add: h(5) c)
  have ex': "(10::real) \<le> real (reconnectAttempts ?sx)" by (simp add: h(1) c(1))
  from handleCloses_exhausted [OF a(6) h(2) ex' h(3)]
  have m: "timers (handleCloses later ?sx) = timers ?s10"
    "filter connects (effects (handleCloses later ?sx)) = filter connects (effects ?s10)"
    by (simp_all add: t e)
  have f: "forceReconnect None False ?sx = connect False (?sx\<lparr>reconnectAttempts := 0\<rparr>)"
    using h(7) by (simp add: forceReconnect_def)
  have d: "\<not> isConnected (?sx\<lparr>reconnectAttempts := 0\<rparr>)" using h(7) by simp
  have r: "reconnectAttempts (snd (forceReconnect None False ?sx)) = 0"
    "filter connects (effects (snd (forceReconnect None False ?sx))) =
       filter connects (effects ?s10) @ [NewWebSocket (fresh ?s10)]"
    unfolding f using connect_disconnected_fields(1,6) [OF d]
    by (simp_all add: e h(8))
  show "reconnectAttempts ?s10 = 10
   \<and> totalReconnects ?s10 = totalReconnects s + 10
   \<and> effects ?sx = effects ?s10 @
         [Emit (onDisconnected (code ev) (reason ev) False),
          Emit (onError (max_reconnects_reached 10))]
   \<and> timers ?sx = timers ?s10
   \<and> timers (handleCloses later ?sx) = timers ?s10
   \<and> filter connects (effects (handleCloses later ?sx)) = filter connects (effects ?s10)
   \<and> reconnectAttempts (snd (forceReconnect None False ?sx)) = 0
   \<and> filter connects (effects (snd (forceReconnect None False ?sx))) =
       filter connects (effects ?s10) @ [NewWebSocket (fresh ?s10)]"
    using c(1,2) e t m r by blast
qed

text \<open>The theorem for a client that was connected and then lost eleven sockets in a row.\<close>

theorem C2_witness:
  "reconnectAttempts (closures (replicate 10 abnormal_close) connected_service) = 10
   \<and> effects (handleClose abnormal_close (closures (replicate 10 abnormal_close) connected_service)) =
       effects (closures (replicate 10 abnormal_close) connected_service) @
         [Emit (onDisconnected 1006 [] False), Emit (onError (max_reconnects_reached 10))]
   \<and> timers (handleCloses [abnormal_close, abnormal_close]
        (handleClose abnormal_close (closures (replicate 10 abnormal_close) connected_service))) =
       timers (closures (replicate 10 abnormal_close) connected_service)
   \<and> reconnectAttempts (snd (forceReconnect None False
        (handleClose abnormal_close (closures (replicate 10 abnormal_close) connected_service)))) = 0"
  using C2_max_reconnects_reached [of connected_service "replicate 10 abnormal_close" abnormal_close
      "[abnormal_close, abnormal_close]"]
  by (simp add: connected_service_facts abnormal_def abnormal_close_def)

text \<open>
  C9. If the client is connected, \<open>connect\<close> returns \<open>true\<close> and leaves the whole
  service as it was: no effect is added (no socket, no notification, no timer) and no
  field changes; calling it again changes nothing either.
\<close>

theorem C9_connect_when_connected:
  "isConnected s \<longrightarrow> connect ctor_throws s = (resolved_true, s)
     \<and> snd (connect ctor_throws (snd (connect ctor_throws s))) = snd (connect ctor_throws s)"
  by (simp add: connect_def)

text \<open>The theorem at the connected client.\<close>

theorem C9_witness:
  "isConnected connected_service \<and> connect False connected_service = (resolved_true, connected_service)"
  using C9_connect_when_connected [of connected_service False] connected_service_isConnected
  by simp

section \<open>Decoding a raw value\<close>



































section \<open>The polling client\<close>

lemma request_catch_fst: "isl (fst (request_catch err s))"
  by (simp add: request_catch_def Let_def)

lemma request_catch_snd:
  "snd (request_catch err s) = s\<lparr>metrics := (metrics s)\<lparr>errorCount := errorCount (metrics s) + 1\<rparr>\<rparr>"
  by (simp add: request_catch_def Let_def)

lemma updateResponseTime_counts:
  "requestCount (updateResponseTime t m) = requestCount m"
  "successCount (updateResponseTime t m) = successCount m"
  "errorCount (updateResponseTime t m) = errorCount m"
  by (simp_all add: updateResponseTime_def)

lemma setCache_metrics:
  "metrics (setCache k d a b s) = metrics s" "network (setCache k d a b s) = network s"
  by (simp_all add: setCache_def cleanupCache_def Let_def)

lemma request_try_requestCount:
  "requestCount (metrics (snd (request_try url key options clk outcome s))) = requestCount (metrics s)"
  by (simp add: request_try_def Let_def request_catch_snd updateResponseTime_counts setCache_metrics
      split: fetch_outcome.split body.split)

lemma request_try_network:
  "network (snd (request_try url key options clk outcome s)) = network s @ [(fetch_method options, url)]"
  by (simp add: request_try_def Let_def request_catch_snd updateResponseTime_counts setCache_metrics
      split: fetch_outcome.split body.split)

lemma request_try_failure:
  "isl (fst (request_try url key options clk outcome s)) \<longrightarrow>
     errorCount (metrics (snd (request_try url key options clk outcome s))) = errorCount (metrics s) + 1
     \<and> successCount (metrics (snd (request_try url key options clk outcome s))) = successCount (metrics s)"
  by (simp add: request_try_def Let_def request_catch_snd request_catch_fst updateResponseTime_counts setCache_metrics
      split: fetch_outcome.split body.split)

lemma request_try_success:
  "\<not> isl (fst (request_try url key options clk outcome s)) \<longrightarrow>
     successCount (metrics (snd (request_try url key options clk outcome s))) = successCount (metrics s) + 1
     \<and> errorCount (metrics (snd (request_try url key options clk outcome s))) = errorCount (metrics s)
     \<and> avgResponseTime (metrics (snd (request_try url key options clk outcome s))) =
          avgResponseTime (updateResponseTime (real_of_int (t_response clk - t_start clk)) (metrics s))"
  by (simp add: request_try_def Let_def request_catch_snd request_catch_fst updateResponseTime_counts setCache_metrics
      split: fetch_outcome.split body.split)


lemma getFromCache_metrics:
  "metrics (snd (getFromCache key now s)) = metrics s"
  "network (snd (getFromCache key now s)) = network s"
  by (simp_all add: getFromCache_def split: option.split)

lemma getFromCache_hit:
  "map_of (cache s) key = Some entry \<Longrightarrow> \<not> now - timestamp entry > cacheTimeout s \<Longrightarrow>
     getFromCache key now s = (Some (cached_data entry), s)"
  by (simp add: getFromCache_def)

lemma getFromCache_expired:
  "map_of (cache s) key = Some entry \<Longrightarrow> now - timestamp entry > cacheTimeout s \<Longrightarrow>
     getFromCache key now s = (None, s\<lparr>cache := AList.delete key (cache s)\<rparr>)"
  by (simp add: getFromCache_def)

lemma count_request_fields:
  "requestCount (metrics (count_request clk s)) = requestCount (metrics s) + 1"
  "successCount (metrics (count_request clk s)) = successCount (metrics s)"
  "errorCount (metrics (count_request clk s)) = errorCount (metrics s)"
  "avgResponseTime (metrics (count_request clk s)) = avgResponseTime (metrics s)"
  "network (count_request clk s) = network s"
  "cache (count_request clk s) = cache s"
  "cacheTimeout (count_request clk s) = cacheTimeout s"
  by (simp_all add: count_request_def)

lemma check_cache_fields:
  "metrics (snd (check_cache options key clk s)) = metrics s"
  "network (snd (check_cache options key clk s)) = network s"
  by (simp_all add: check_cache_def getFromCache_metrics)

lemma request_hit:
  "fst (check_cache options (cache_key s endpoint options) clk (count_request clk s)) = Some d \<Longrightarrow>
     request endpoint options clk outcome s =
       (Inr d, snd (check_cache options (cache_key s endpoint options) clk (count_request clk s)))"
  by (cases "check_cache options (cache_key s endpoint options) clk (count_request clk s)") (simp add: request_def Let_def)

lemma request_miss:
  "fst (check_cache options (cache_key s endpoint options) clk (count_request clk s)) = None \<Longrightarrow>
     request endpoint options clk outcome s =
       request_try (request_url s endpoint) (cache_key s endpoint options) options clk outcome
         (snd (check_cache options (cache_key s endpoint options) clk (count_request clk s)))"
  by (cases "check_cache options (cache_key s endpoint options) clk (count_request clk s)") (simp add: request_def Let_def)

lemma request_requestCount:
  "requestCount (metrics (snd (request endpoint options clk outcome s))) = requestCount (metrics s) + 1"
proof (cases "fst (check_cache options (cache_key s endpoint options) clk (count_request clk s))")
  case None
  then show ?thesis
    by (simp add: request_miss request_try_requestCount check_cache_fields count_request_fields)
next
  case (Some d)
  then show ?thesis
    by (simp add: request_hit check_cache_fields count_request_fields)
qed

lemma request_cache_hit:
  assumes "is_GET options" "map_of (cache s) (cache_key s endpoint options) = Some entry"
    "t_lookup clk - timestamp entry \<le> cacheTimeout s"
  shows "request endpoint options clk outcome s = (Inr (cached_data entry), count_request clk s)"
proof -
  let ?k = "cache_key s endpoint options"
  let ?s1 = "count_request clk s"
  have "getFromCache ?k (t_lookup clk) ?s1 = (Some (cached_data entry), ?s1)"
    using assms(2,3) by (intro getFromCache_hit) (simp_all add: count_request_fields)
  then have c: "check_cache options ?k clk ?s1 = (Some (cached_data entry), ?s1)"
    using assms(1) by (simp add: check_cache_def)
  show ?thesis
    using request_hit [of options s endpoint clk "cached_data entry" outcome] by (simp add: c)
qed

lemma request_cache_expired:
  assumes "is_GET options" "map_of (cache s) (cache_key s endpoint options) = Some entry"
    "t_lookup clk - timestamp entry > cacheTimeout s"
  shows "network (snd (request endpoint options clk outcome s)) =
           network s @ [(fetch_method options, request_url s endpoint)]"
proof -
  let ?k = "cache_key s endpoint options"
  let ?s1 = "count_request clk s"
  have "getFromCache ?k (t_lookup clk) ?s1 = (None, ?s1\<lparr>cache := AList.delete ?k (cache ?s1)\<rparr>)"
    using assms(2,3) by (intro getFromCache_expired) (simp_all add: count_request_fields)
  then have c: "check_cache options ?k clk ?s1 = (None, ?s1\<lparr>cache := AList.delete ?k (cache ?s1)\<rparr>)"
    using assms(1) by (simp add: check_cache_def)
  have r: "request endpoint options clk outcome s =
             request_try (request_url s endpoint) ?k options clk outcome
               (?s1\<lparr>cache := AList.delete ?k (cache ?s1)\<rparr>)"
    using request_miss [of options s endpoint clk outcome] by (simp add: c)
  show ?thesis
    by (simp add: r request_try_network count_request_fields)
qed

lemma count_request_keys:
  "cache_key (count_request clk s) endpoint options = cache_key s endpoint options"
  "request_url (count_request clk s) endpoint = request_url s endpoint"
  by (simp_all add: cache_key_def request_url_def count_request_def)

text \<open>
  C5. For a GET whose key (method, underscore, full address) has an entry in the cache:
  if at the lookup the entry is not older than \<open>cacheTimeout\<close>, \<open>request\<close> returns the
  cached payload and issues no network call; if it is older, \<open>request\<close> issues exactly
  one network call; and the same request made first within and then after the
  time-to-live issues exactly one call in total.
\<close>

theorem C5_cache_hit_and_expiry:
  "is_GET options \<and> map_of (cache s) (cache_key s endpoint options) = Some entry \<longrightarrow>
     (t_lookup clk - timestamp entry \<le> cacheTimeout s \<longrightarrow>
        fst (request endpoint options clk outcome s) = Inr (cached_data entry)
        \<and> network (snd (request endpoint options clk outcome s)) = network s)
   \<and> (t_lookup clk - timestamp entry > cacheTimeout s \<longrightarrow>
        network (snd (request endpoint options clk outcome s)) =
          network s @ [(fetch_method options, request_url s endpoint)])
   \<and> (t_lookup clk - timestamp entry \<le> cacheTimeout s
        \<and> t_lookup clk' - timestamp entry > cacheTimeout s \<longrightarrow>
        network (snd (request endpoint options clk' outcome'
                        (snd (request endpoint options clk outcome s)))) =
          network s @ [(fetch_method options, request_url s endpoint)])"
proof (intro impI conjI; elim conjE)
  assume g: "is_GET options" and e: "map_of (cache s) (cache_key s endpoint options) = Some entry"
  {
    assume young: "t_lookup clk - timestamp entry \<le> cacheTimeout s"
    note r = request_cache_hit [OF g e young, of outcome]
    show "fst (request endpoint options clk outcome s) = Inr (cached_data entry)"
      and "network (snd (request endpoint options clk outcome s)) = network s"
      by (simp_all add: r count_request_fields)
  }
  {
    assume old: "t_lookup clk - timestamp entry > cacheTimeout s"
    show "network (snd (request endpoint options clk outcome s)) =
          network s @ [(fetch_method options, request_url s endpoint)]"
      using g e old by (rule request_cache_expired)
  }
  {
    assume young: "t_lookup clk - timestamp entry \<le> cacheTimeout s"
      and old: "t_lookup clk' - timestamp entry > cacheTimeout s"
    note r = request_cache_hit [OF g e young, of outcome]
    have e1: "map_of (cache (count_request clk s)) (cache_key (count_request clk s) endpoint options)
                = Some entry"
      using e by (simp add: count_request_fields count_request_keys)
    have old1: "t_lookup clk' - timestamp entry > cacheTimeout (count_request clk s)"
      using old by (simp add: count_request_fields)
    show "network (snd (request endpoint options clk' outcome'
                        (snd (request endpoint options clk outcome s)))) =
          network s @ [(fetch_method options, request_url s endpoint)]"
      using request_cache_expired [OF g e1 old1, of outcome']
      by (simp add: r count_request_fields count_request_keys)
  }
qed

text \<open>The theorem for the cached reading, asked for again after 1 s and after 399 s.\<close>

theorem C5_witness:
  "fst (request ''/api/latest'' no_options (clock_at 2000)
          (fetch_rejected (JsError ''TypeError'' ''Failed to fetch'')) example_api)
     = Inr \<lparr>success = True, data = 742, error = None\<rparr>
   \<and> network (snd (request ''/api/latest'' no_options (clock_at 2000)
          (fetch_rejected (JsError ''TypeError'' ''Failed to fetch'')) example_api))
     = [(''GET'', ''http://localhost:8080/api/latest'')]
   \<and> network (snd (request ''/api/latest'' no_options (clock_at 400000)
          (response 200 ''OK'' (json_object \<lparr>success = True, data = 740, error = None\<rparr>))
          (snd (request ''/api/latest'' no_options (clock_at 2000)
             (fetch_rejected (JsError ''TypeError'' ''Failed to fetch'')) example_api))))
     = [(''GET'', ''http://localhost:8080/api/latest''), (''GET'', ''http://localhost:8080/api/latest'')]"
  using C5_cache_hit_and_expiry [of no_options example_api "''/api/latest''"
          "\<lparr>cached_data = \<lparr>success = True, data = 742, error = None\<rparr>, timestamp = 1000\<rparr>"
          "clock_at 2000" "fetch_rejected (JsError ''TypeError'' ''Failed to fetch'')"
          "clock_at 400000"
          "response 200 ''OK'' (json_object \<lparr>success = True, data = 740, error = None\<rparr>)"]
  by (simp add: is_GET_def no_options_def truthy_string_def example_api_def cache_key_def
        method_or_GET_def request_url_def clock_at_def fetch_method_def)

text \<open>
  C7, as the code has it. Every call of \<open>request\<close> adds one to \<open>requestCount\<close>. A call
  that fails adds one to \<open>errorCount\<close> and leaves \<open>successCount\<close>. A call that
  succeeds after a network call adds one to \<open>successCount\<close>, leaves \<open>errorCount\<close> and
  has folded the elapsed time into the average response time. A call that is answered
  from the cache (it succeeds and issues no network call) changes none of
  \<open>successCount\<close>, \<open>errorCount\<close> and the average.
\<close>

theorem C7_request_metrics:
  "requestCount (metrics (snd (request endpoint options clk outcome s))) = requestCount (metrics s) + 1
   \<and> (isl (fst (request endpoint options clk outcome s)) \<longrightarrow>
        errorCount (metrics (snd (request endpoint options clk outcome s))) = errorCount (metrics s) + 1
        \<and> successCount (metrics (snd (request endpoint options clk outcome s))) = successCount (metrics s))
   \<and> (\<not> isl (fst (request endpoint options clk outcome s))
        \<and> network (snd (request endpoint options clk outcome s)) \<noteq> network s \<longrightarrow>
        successCount (metrics (snd (request endpoint options clk outcome s))) = successCount (metrics s) + 1
        \<and> errorCount (metrics (snd (request endpoint options clk outcome s))) = errorCount (metrics s)
        \<and> avgResponseTime (metrics (snd (request endpoint options clk outcome s))) =
            (if avgResponseTime (metrics s) = 0 then real_of_int (t_response clk - t_start clk)
             else avgResponseTime (metrics s) * 0.8 + real_of_int (t_response clk - t_start clk) * 0.2))
   \<and> (\<not> isl (fst (request endpoint options clk outcome s))
        \<and> network (snd (request endpoint options clk outcome s)) = network s \<longrightarrow>
        successCount (metrics (snd (request endpoint options clk outcome s))) = successCount (metrics s)
        \<and> errorCount (metrics (snd (request endpoint options clk outcome s))) = errorCount (metrics s)
        \<and> avgResponseTime (metrics (snd (request endpoint options clk outcome s))) =
            avgResponseTime (metrics s))"
proof (cases "fst (check_cache options (cache_key s endpoint options) clk (count_request clk s))")
  case None
  let ?s2 = "snd (check_cache options (cache_key s endpoint options) clk (count_request clk s))"
  let ?t = "request_try (request_url s endpoint) (cache_key s endpoint options) options clk outcome ?s2"
  have r: "request endpoint options clk outcome s = ?t"
    using None by (rule request_miss)
  have m: "successCount (metrics ?s2) = successCount (metrics s)"
    "errorCount (metrics ?s2) = errorCount (metrics s)"
    "avgResponseTime (metrics ?s2) = avgResponseTime (metrics s)"
    by (simp_all add: check_cache_fields count_request_fields)
  have n: "network (snd ?t) \<noteq> network s"
    by (simp add: request_try_network check_cache_fields count_request_fields)
  have f: "isl (fst ?t) \<longrightarrow> errorCount (metrics (snd ?t)) = errorCount (metrics s) + 1
             \<and> successCount (metrics (snd ?t)) = successCount (metrics s)"
    using request_try_failure [of "request_url s endpoint" "cache_key s endpoint options" options clk outcome ?s2]
    by (simp add: m)
  have g: "\<not> isl (fst ?t) \<longrightarrow> successCount (metrics (snd ?t)) = successCount (metrics s) + 1
             \<and> errorCount (metrics (snd ?t)) = errorCount (metrics s)
             \<and> avgResponseTime (metrics (snd ?t)) =
                 (if avgResponseTime (metrics s) = 0 then real_of_int (t_response clk - t_start clk)
                  else avgResponseTime (metrics s) * 0.8 + real_of_int (t_response clk - t_start clk) * 0.2)"
    using request_try_success [of "request_url s endpoint" "cache_key s endpoint options" options clk outcome ?s2]
    by (simp add: m updateResponseTime_def)
  have c: "requestCount (metrics (snd ?t)) = requestCount (metrics s) + 1"
    using request_requestCount [of endpoint options clk outcome s] by (simp add: r)
  show ?thesis
    unfolding r using n f g c by blast
next
  case (Some d)
  then show ?thesis
    by (simp add: request_hit check_cache_fields count_request_fields)
qed

text \<open>The theorem at a failing call, a call answered by the network and a cache hit.\<close>

theorem C7_witness:
  "errorCount (metrics (snd (request ''/api/stats'' no_options (clock_at 2000)
       (response 500 ''Internal Server Error'' json_null) example_api))) = 1
   \<and> successCount (metrics (snd (request ''/api/stats'' no_options (clock_at 2000)
       (response 200 ''OK'' (json_object \<lparr>success = True, data = 5, error = None\<rparr>)) example_api))) = 2
   \<and> avgResponseTime (metrics (snd (request ''/api/stats'' no_options (clock_at 2000)
       (response 200 ''OK'' (json_object \<lparr>success = True, data = 5, error = None\<rparr>)) example_api))) = 20
   \<and> successCount (metrics (snd (request ''/api/latest'' no_options (clock_at 2000)
       (response 200 ''OK'' json_null) example_api))) = 1"
proof -
  have a: "isl (fst (request ''/api/stats'' no_options (clock_at 2000)
       (response 500 ''Internal Server Error'' json_null) example_api))"
    by (simp add: request_def Let_def check_cache_def getFromCache_def is_GET_def no_options_def
        truthy_string_def example_api_def cache_key_def method_or_GET_def request_url_def
        clock_at_def count_request_def request_try_def ok_def request_catch_fst)
  have b: "\<not> isl (fst (request ''/api/stats'' no_options (clock_at 2000)
       (response 200 ''OK'' (json_object \<lparr>success = True, data = 5, error = None\<rparr>)) example_api))
     \<and> network (snd (request ''/api/stats'' no_options (clock_at 2000)
       (response 200 ''OK'' (json_object \<lparr>success = True, data = 5, error = None\<rparr>)) example_api))
       \<noteq> network example_api"
    by (simp add: request_def Let_def check_cache_def getFromCache_def is_GET_def no_options_def
        truthy_string_def example_api_def cache_key_def method_or_GET_def request_url_def
        clock_at_def count_request_def request_try_def ok_def setCache_metrics)
  have c: "\<not> isl (fst (request ''/api/latest'' no_options (clock_at 2000)
       (response 200 ''OK'' json_null) example_api))
     \<and> network (snd (request ''/api/latest'' no_options (clock_at 2000)
       (response 200 ''OK'' json_null) example_api)) = network example_api"
    by (simp add: request_def Let_def check_cache_def getFromCache_def is_GET_def no_options_def
        truthy_string_def example_api_def cache_key_def method_or_GET_def request_url_def
        clock_at_def count_request_def)
  have m: "errorCount (metrics example_api) = 0" "successCount (metrics example_api) = 1"
    "avgResponseTime (metrics example_api) = 20"
    by (simp_all add: example_api_def)
  have t: "t_response (clock_at 2000) - t_start (clock_at 2000) = 20"
    by (simp add: clock_at_def)
  show ?thesis
    using a b c
      C7_request_metrics [of "''/api/stats''" no_options "clock_at 2000"
        "response 500 ''Internal Server Error'' json_null" example_api]
      C7_request_metrics [of "''/api/stats''" no_options "clock_at 2000"
        "response 200 ''OK'' (json_object \<lparr>success = True, data = 5, error = None\<rparr>)" example_api]
      C7_request_metrics [of "''/api/latest''" no_options "clock_at 2000"
        "response 200 ''OK'' json_null" example_api]
    by (simp add: m t)
qed

lemma request_example_hit:
  "request ''/api/latest'' no_options (clock_at 2000) (response 200 ''OK'' json_null) example_api
     = (Inr \<lparr>success = True, data = 742, error = None\<rparr>, count_request (clock_at 2000) example_api)"
  by (simp add: request_def Let_def check_cache_def getFromCache_def is_GET_def no_options_def
        truthy_string_def example_api_def cache_key_def method_or_GET_def request_url_def
        clock_at_def count_request_def)

text \<open>
  The claim as stated fails for a call that is answered from the cache: the call
  returns the payload and \<open>successCount\<close> is not incremented.
\<close>

theorem C7_counterexample:
  "\<not> isl (fst (request ''/api/latest'' no_options (clock_at 2000) (response 200 ''OK'' json_null)
               example_api))
   \<and> successCount (metrics (snd (request ''/api/latest'' no_options (clock_at 2000)
                                    (response 200 ''OK'' json_null) example_api)))
       \<noteq> successCount (metrics example_api) + 1"
  by (simp add: request_example_hit count_request_fields)

text \<open>
  C6. Whatever the three sub-calls deliver, \<open>getCompleteData\<close> returns a result. A
  rejected sub-call leaves its fallback in its slot (no reading, the empty object, the
  empty list) and its message in the error list; a fulfilled one has its value in its
  slot; and the error list has exactly as many entries as sub-calls were rejected (so
  one entry when exactly one failed).
\<close>

theorem C6_getCompleteData_never_fails:
  "\<exists>d. getCompleteData latest_result stats_result history_result now_iso = Inr d
     \<and> (\<forall>e. latest_result = rejected e \<longrightarrow> latest d = None \<and> ''Latest: '' @ message e \<in> set (errors d))
     \<and> (\<forall>e. stats_result = rejected e \<longrightarrow> stats d = empty_object \<and> ''Stats: '' @ message e \<in> set (errors d))
     \<and> (\<forall>e. history_result = rejected e \<longrightarrow> recentHistory d = [] \<and> ''History: '' @ message e \<in> set (errors d))
     \<and> (\<forall>v. latest_result = fulfilled v \<longrightarrow> latest d = v)
     \<and> (\<forall>v. stats_result = fulfilled v \<longrightarrow> stats d = stats_object v)
     \<and> (\<forall>v. history_result = fulfilled v \<longrightarrow> recentHistory d = v)
     \<and> length (errors d) =
         length (filter (\<lambda>failed. failed)
           [is_rejected latest_result, is_rejected stats_result, is_rejected history_result])"
  by (cases latest_result; cases stats_result; cases history_result)
     (simp_all add: getCompleteData_def is_rejected_def)

text \<open>The theorem when only the statistics call fails.\<close>

theorem C6_witness:
  "\<not> isl (getCompleteData (fulfilled None)
            (rejected (JsError ''Error'' ''HTTP 500: Internal Server Error''))
            (fulfilled []) ''2025-01-01T00:00:00.000Z'')
   \<and> stats (projr (getCompleteData (fulfilled None)
            (rejected (JsError ''Error'' ''HTTP 500: Internal Server Error''))
            (fulfilled []) ''2025-01-01T00:00:00.000Z'')) = empty_object
   \<and> ''Stats: HTTP 500: Internal Server Error''
       \<in> set (errors (projr (getCompleteData (fulfilled None)
            (rejected (JsError ''Error'' ''HTTP 500: Internal Server Error''))
            (fulfilled []) ''2025-01-01T00:00:00.000Z'')))
   \<and> length (errors (projr (getCompleteData (fulfilled None)
            (rejected (JsError ''Error'' ''HTTP 500: Internal Server Error''))
            (fulfilled []) ''2025-01-01T00:00:00.000Z''))) = 1"
  using C6_getCompleteData_never_fails [of "fulfilled None"
      "rejected (JsError ''Error'' ''HTTP 500: Internal Server Error'')" "fulfilled []"
      "''2025-01-01T00:00:00.000Z''"]
  by (auto simp add: is_rejected_def)

text \<open>
  C10. The field \<open>cacheHitRate\<close> of \<open>getMetrics\<close> is 0 when the cache is empty;
  otherwise it lies between 85 and 100 for every value that \<open>Math.random()\<close> returns, it
  is the same for any two clients with a non-empty cache (it depends on the random
  value alone), and two calls on the same client can give different results.
\<close>

theorem C10_cacheHitRate_is_random:
  "(cache s = [] \<longrightarrow> cacheHitRate (getMetrics r s) = 0)
   \<and> (cache s \<noteq> [] \<and> 0 \<le> r \<and> r < 1 \<longrightarrow>
        85 \<le> cacheHitRate (getMetrics r s) \<and> cacheHitRate (getMetrics r s) \<le> 100)
   \<and> (cache s \<noteq> [] \<and> cache s' \<noteq> [] \<longrightarrow>
        cacheHitRate (getMetrics r s) = cacheHitRate (getMetrics r s'))
   \<and> (cache s \<noteq> [] \<longrightarrow>
        (\<exists>r1 r2. 0 \<le> r1 \<and> r1 < 1 \<and> 0 \<le> r2 \<and> r2 < 1 \<and> getMetrics r1 s \<noteq> getMetrics r2 s))"
proof (intro conjI impI)
  assume "cache s \<noteq> []"
  then have "cacheHitRate (getMetrics 0 s) = 85" "cacheHitRate (getMetrics (1/2) s) = 90"
    by (simp_all add: getMetrics_def calculateCacheHitRate_def Let_def)
  then have "getMetrics 0 s \<noteq> getMetrics (1/2) s"
    by auto
  then show "\<exists>r1 r2. 0 \<le> r1 \<and> r1 < 1 \<and> 0 \<le> r2 \<and> r2 < 1 \<and> getMetrics r1 s \<noteq> getMetrics r2 s"
    by (intro exI [of _ 0] exI [of _ "1/2"]) simp
qed (auto simp add: getMetrics_def calculateCacheHitRate_def Let_def)

text \<open>The theorem at the client with one cached reading.\<close>

theorem C10_witness:
  "cacheHitRate (getMetrics (1/4) example_api) \<le> 100
   \<and> 85 \<le> cacheHitRate (getMetrics (1/4) example_api)
   \<and> cacheHitRate (getMetrics (1/4) (example_api\<lparr>cache := []\<rparr>)) = 0
   \<and> cacheHitRate (getMetrics (1/4) example_api)
       = cacheHitRate (getMetrics (1/4) (example_api\<lparr>network := []\<rparr>))"
  using C10_cacheHitRate_is_random [of example_api "1/4" "example_api\<lparr>network := []\<rparr>"]
    C10_cacheHitRate_is_random [of "example_api\<lparr>cache := []\<rparr>" "1/4" example_api]
  by (simp add: example_api_def)

end
